theory Spec2Isabelle
  imports Main
begin

section \<open>The Clang toolchain of the ninja generator (clang.py)\<close>

text \<open>
  The class \<open>ClangToolchain\<close> of \<open>clang.py\<close> composes compiler, archiver and linker
  flags for one build edge and binds them to ninja variables. The methods below are
  embedded one by one, with \<open>self\<close> as an explicit record argument. Flag lists are
  lists of strings, in the order in which the Python code appends them.
\<close>

subsection \<open>Data model\<close>

text \<open>
  \<open>self.target\<close>: the code only ever asks it \<open>is_windows()\<close> and \<open>is_android()\<close>.
  The two answers are kept as independent booleans, so every result below also covers
  a target object that answers both questions the same way.
\<close>

record Target =
  is_windows :: bool
  is_android :: bool

text \<open>
  \<open>self.android\<close>: the NDK helper object, defined in another module. Its attribute and
  its three path methods are taken as they are used here: a string, and functions
  from the architecture name to a path string.
\<close>

record Android =
  hostarchname :: string
  make_gcc_toolchain_path :: "string \<Rightarrow> string"
  make_sysroot_path :: "string \<Rightarrow> string"
  make_gcc_bin_path :: "string \<Rightarrow> string"

text \<open>
  Python's \<open>os\<close> module, as far as the class uses it: \<open>os.sep\<close> and \<open>os.path.join\<close>
  (applied to the list of its arguments).
\<close>

record os_module =
  os_sep :: string
  os_path_join :: "string list \<Rightarrow> string"

text \<open>
  The attributes of \<open>self\<close> that the embedded methods read or write. The path
  collections \<open>includepaths\<close> and \<open>libpaths\<close> come from the caller of \<open>initialize\<close>
  and may be \<open>None\<close>. \<open>path_escape\<close> is a method inherited from the base class
  \<open>toolchain.Toolchain\<close>; it is carried as a field.
\<close>

record ClangToolchain =
  toolchain :: string
  includepaths :: "string list option"
  libpaths :: "string list option"
  archiver :: string
  cccmd :: string
  linkcmd :: string
  cflags :: "string list"
  linkflags :: "string list"
  oslibs :: "string list"
  libpath :: string
  target :: Target
  android :: Android
  path_escape :: "string \<Rightarrow> string"

text \<open>The one exception the embedded code can raise itself: \<open>None += [...]\<close>.\<close>

datatype error = TypeError

text \<open>
  A value bound to a ninja variable of one build edge: a scalar string
  (\<open>sysroot\<close>, \<open>toolchain\<close>) or a flag list.
\<close>

datatype varvalue = Scalar string | Flags "string list"

text \<open>
  The per-edge variable dictionary passed by the caller: a key may be absent, or
  present with the value \<open>None\<close>, or present with a list of strings.
\<close>

type_synonym variables = "string \<rightharpoonup> string list option"

subsection \<open>String helpers\<close>

text \<open>The backslash character, and Python's \<open>str.endswith\<close>.\<close>

definition backslash :: string where
  "backslash = [CHR 0x5C]"

definition endswith :: "string \<Rightarrow> string \<Rightarrow> bool" where
  "endswith s suffix =
     (length suffix \<le> length s \<and> drop (length s - length suffix) s = suffix)"

subsection \<open>Platform specialisation: \<open>build_toolchain\<close>\<close>

definition build_windows_toolchain :: "ClangToolchain \<Rightarrow> ClangToolchain" where
  "build_windows_toolchain self =
     self\<lparr> cflags := cflags self @ [''-U__STRICT_ANSI__'', ''-Wno-reserved-id-macro''],
           oslibs := [''kernel32'', ''user32'', ''shell32'', ''advapi32''] \<rparr>"

text \<open>
  \<open>self.includepaths += [...]\<close> raises \<open>TypeError\<close> when \<open>includepaths\<close> is \<open>None\<close>;
  the statements after it are then not executed.
\<close>

definition build_android_toolchain :: "os_module \<Rightarrow> ClangToolchain \<Rightarrow> error + ClangToolchain" where
  "build_android_toolchain os self =
     (let self = self\<lparr> archiver := ''ar'' \<rparr>;
          self = self\<lparr> cccmd := cccmd self @ '' --sysroot=$sysroot'' \<rparr>;
          self = self\<lparr> linkcmd := linkcmd self @ '' -shared -Wl,-soname,$liblinkname --sysroot=$sysroot'' \<rparr>;
          self = self\<lparr> cflags := cflags self @
                   [''-fpic'', ''-ffunction-sections'', ''-funwind-tables'', ''-fstack-protector'',
                    ''-fomit-frame-pointer'', ''-no-canonical-prefixes'', ''-Wa,--noexecstack''] \<rparr>;
          self = self\<lparr> linkflags := linkflags self @
                   [''-no-canonical-prefixes'', ''-Wl,--no-undefined'', ''-Wl,-z,noexecstack'',
                    ''-Wl,-z,relro'', ''-Wl,-z,now''] \<rparr>
      in case includepaths self of
           None \<Rightarrow> Inl TypeError
         | Some paths \<Rightarrow>
             (let self = self\<lparr> includepaths := Some (paths @
                           [os_path_join os [''$ndk'', ''sources'', ''android'', ''native_app_glue''],
                            os_path_join os [''$ndk'', ''sources'', ''android'', ''cpufeatures'']]) \<rparr>;
                  self = self\<lparr> oslibs := oslibs self @ [''log''] \<rparr>;
                  self = self\<lparr> toolchain := os_path_join os
                           [''$ndk'', ''toolchains'', ''llvm'', ''prebuilt'',
                            hostarchname (android self), ''bin'', ''''] \<rparr>
              in Inr self))"

text \<open>
  \<open>build_toolchain\<close> first calls the method of the base class, which lives in another
  module: it is the parameter \<open>super_build_toolchain\<close>, any state transformer that may
  also raise. Then comes the platform branch, then the normalisation of the prefix.
\<close>

definition build_toolchain ::
  "os_module \<Rightarrow> (ClangToolchain \<Rightarrow> error + ClangToolchain) \<Rightarrow> ClangToolchain
     \<Rightarrow> error + ClangToolchain" where
  "build_toolchain os super_build_toolchain self =
     (case super_build_toolchain self of
        Inl e \<Rightarrow> Inl e
      | Inr self \<Rightarrow>
          (case (if is_windows (target self) then Inr (build_windows_toolchain self)
                 else if is_android (target self) then build_android_toolchain os self
                 else Inr self) of
             Inl e \<Rightarrow> Inl e
           | Inr self \<Rightarrow>
               Inr (if toolchain self \<noteq> '''' \<and> \<not> endswith (toolchain self) ''/''
                        \<and> \<not> endswith (toolchain self) backslash
                    then self\<lparr> toolchain := toolchain self @ os_sep os \<rparr>
                    else self)))"

subsection \<open>Path and library helpers\<close>

text \<open>
  A parameter or local variable whose Python name is also an attribute of \<open>self\<close>
  carries a prime here (\<open>includepaths'\<close>, \<open>libpaths'\<close>).
\<close>

definition make_includepaths :: "ClangToolchain \<Rightarrow> string list option \<Rightarrow> string list" where
  "make_includepaths self includepaths' =
     (case includepaths' of
        Some paths \<Rightarrow> map (\<lambda>path. ''-I'' @ path_escape self path) paths
      | None \<Rightarrow> [])"

definition make_libpaths :: "ClangToolchain \<Rightarrow> string list option \<Rightarrow> string list" where
  "make_libpaths self libpaths' =
     (case libpaths' of
        Some paths \<Rightarrow>
          (if is_windows (target self)
           then map (\<lambda>path. ''-Xlinker /LIBPATH:'' @ path_escape self path) paths
           else map (\<lambda>path. ''-L'' @ path_escape self path) paths)
      | None \<Rightarrow> [])"

definition make_libs :: "ClangToolchain \<Rightarrow> string list option \<Rightarrow> string list" where
  "make_libs self libs =
     (case libs of
        Some ls \<Rightarrow> map (\<lambda>lib. ''-l'' @ lib) ls
      | None \<Rightarrow> [])"

definition make_configlibpaths :: "os_module \<Rightarrow> ClangToolchain \<Rightarrow> string \<Rightarrow> string \<Rightarrow> string list" where
  "make_configlibpaths os self config arch =
     (let libpaths' = [libpath self,
                       os_path_join os [libpath self, config],
                       os_path_join os [libpath self, config, arch]]
      in make_libpaths self (Some libpaths'))"

subsection \<open>Flag composition\<close>

definition make_targetarchflags :: "ClangToolchain \<Rightarrow> string \<Rightarrow> string \<Rightarrow> string list" where
  "make_targetarchflags self arch targettype =
     (let flags = [] in
      if is_android (target self) then
        (let flags =
           (if arch = ''x86'' then
              flags @ [''-target'', ''i686-none-linux-android'']
                    @ [''-march=i686'', ''-mtune=intel'', ''-mssse3'', ''-mfpmath=sse'', ''-m32'']
            else if arch = ''x86-64'' then
              flags @ [''-target'', ''x86_64-none-linux-android'']
                    @ [''-march=x86-64'', ''-msse4.2'', ''-mpopcnt'', ''-m64'', ''-mtune=intel'']
            else if arch = ''arm6'' then
              flags @ [''-target'', ''armv5te-none-linux-androideabi'']
                    @ [''-march=armv5te'', ''-mtune=xscale'', ''-msoft-float'', ''-marm'']
            else if arch = ''arm7'' then
              flags @ [''-target'', ''armv7-none-linux-androideabi'']
                    @ [''-march=armv7-a'', ''-mhard-float'', ''-mfpu=vfpv3-d16'', ''-mfpu=neon'',
                       ''-D_NDK_MATH_NO_SOFTFP=1'', ''-marm'']
            else if arch = ''arm64'' then
              flags @ [''-target'', ''aarch64-none-linux-android'']
            else if arch = ''mips'' then
              flags @ [''-target'', ''mipsel-none-linux-android'']
            else if arch = ''mips64'' then
              flags @ [''-target'', ''mips64el-none-linux-android'']
            else flags)
         in flags @ [''-gcc-toolchain'', make_gcc_toolchain_path (android self) arch])
      else flags)"

definition make_carchflags :: "ClangToolchain \<Rightarrow> string \<Rightarrow> string \<Rightarrow> string list" where
  "make_carchflags self arch targettype =
     (let flags = [];
          flags = (if targettype = ''sharedlib'' then flags @ [''-DBUILD_DYNAMIC_LINK=1'']
                   else flags);
          flags = (if is_android (target self)
                   then flags @ make_targetarchflags self arch targettype
                   else flags)
      in flags)"

definition make_cconfigflags :: "ClangToolchain \<Rightarrow> string \<Rightarrow> string \<Rightarrow> string list" where
  "make_cconfigflags self config targettype =
     (let flags = [] in
      if config = ''debug'' then flags @ [''-DBUILD_DEBUG=1'', ''-g'']
      else if config = ''release'' then
        flags @ [''-DBUILD_RELEASE=1'', ''-O3'', ''-g'', ''-funroll-loops'']
      else if config = ''profile'' then
        flags @ [''-DBUILD_PROFILE=1'', ''-O3'', ''-g'', ''-funroll-loops'']
      else if config = ''deploy'' then
        flags @ [''-DBUILD_DEPLOY=1'', ''-O3'', ''-g'', ''-funroll-loops'']
      else flags)"

definition make_ararchflags :: "ClangToolchain \<Rightarrow> string \<Rightarrow> string \<Rightarrow> string list" where
  "make_ararchflags self arch targettype = []"

definition make_arconfigflags :: "ClangToolchain \<Rightarrow> string \<Rightarrow> string \<Rightarrow> string list" where
  "make_arconfigflags self config targettype = []"

definition make_linkarchflags :: "ClangToolchain \<Rightarrow> string \<Rightarrow> string \<Rightarrow> string list" where
  "make_linkarchflags self arch targettype =
     (let flags = [] in
      if is_android (target self) then
        (let flags = flags @ make_targetarchflags self arch targettype;
             flags = (if arch = ''arm7''
                      then flags @ [''-Wl,--no-warn-mismatch'', ''-Wl,--fix-cortex-a8'']
                      else flags)
         in flags)
      else flags)"

definition make_linkconfigflags :: "ClangToolchain \<Rightarrow> string \<Rightarrow> string \<Rightarrow> string list" where
  "make_linkconfigflags self config targettype =
     (let flags = [] in
      if is_windows (target self) then
        (if targettype = ''sharedlib'' then flags @ [''-Xlinker'', ''/DLL'']
         else if targettype = ''bin'' then flags @ [''-Xlinker'', ''/SUBSYSTEM:CONSOLE'']
         else flags)
      else flags)"

definition make_linkarchlibs :: "ClangToolchain \<Rightarrow> string \<Rightarrow> string \<Rightarrow> string list" where
  "make_linkarchlibs self arch targettype =
     (let archlibs = [] in
      if is_android (target self) then
        (let archlibs = (if arch = ''arm7'' then archlibs @ [''m_hard'']
                         else archlibs @ [''m''])
         in archlibs @ [''gcc'', ''android''])
      else archlibs)"

subsection \<open>Variable binding\<close>

definition cc_variables ::
  "ClangToolchain \<Rightarrow> string \<Rightarrow> string \<Rightarrow> string \<Rightarrow> variables \<Rightarrow> (string \<times> varvalue) list" where
  "cc_variables self config arch targettype variables =
     (let localvariables = [];
          localvariables =
            (case variables ''includepaths'' of
               None \<Rightarrow> localvariables
             | Some v \<Rightarrow>
                 (let moreincludepaths = make_includepaths self v in
                  if \<not> moreincludepaths = []
                  then localvariables @ [(''moreincludepaths'', Flags moreincludepaths)]
                  else localvariables));
          carchflags = make_carchflags self arch targettype;
          localvariables =
            (if carchflags \<noteq> [] then localvariables @ [(''carchflags'', Flags carchflags)]
             else localvariables);
          cconfigflags = make_cconfigflags self config targettype;
          localvariables =
            (if cconfigflags \<noteq> [] then localvariables @ [(''cconfigflags'', Flags cconfigflags)]
             else localvariables);
          localvariables =
            (if is_android (target self)
             then localvariables @ [(''sysroot'', Scalar (make_sysroot_path (android self) arch))]
             else localvariables)
      in localvariables)"

definition ar_variables ::
  "ClangToolchain \<Rightarrow> string \<Rightarrow> string \<Rightarrow> string \<Rightarrow> variables \<Rightarrow> (string \<times> varvalue) list" where
  "ar_variables self config arch targettype variables =
     (let localvariables = [];
          ararchflags = make_ararchflags self arch targettype;
          localvariables =
            (if ararchflags \<noteq> [] then localvariables @ [(''ararchflags'', Flags ararchflags)]
             else localvariables);
          arconfigflags = make_arconfigflags self config targettype;
          localvariables =
            (if arconfigflags \<noteq> [] then localvariables @ [(''arconfigflags'', Flags arconfigflags)]
             else localvariables);
          localvariables =
            (if is_android (target self)
             then localvariables @ [(''toolchain'', Scalar (make_gcc_bin_path (android self) arch))]
             else localvariables)
      in localvariables)"

definition link_variables ::
  "os_module \<Rightarrow> ClangToolchain \<Rightarrow> string \<Rightarrow> string \<Rightarrow> string \<Rightarrow> variables
     \<Rightarrow> (string \<times> varvalue) list" where
  "link_variables os self config arch targettype variables =
     (let localvariables = [];
          linkarchflags = make_linkarchflags self arch targettype;
          localvariables =
            (if linkarchflags \<noteq> [] then localvariables @ [(''linkarchflags'', Flags linkarchflags)]
             else localvariables);
          linkconfigflags = make_linkconfigflags self config targettype;
          localvariables =
            (if linkconfigflags \<noteq> []
             then localvariables @ [(''linkconfigflags'', Flags linkconfigflags)]
             else localvariables);
          localvariables =
            (case variables ''libs'' of
               None \<Rightarrow> localvariables
             | Some v \<Rightarrow>
                 (let libvar = make_libs self v in
                  if libvar \<noteq> [] then localvariables @ [(''libs'', Flags libvar)]
                  else localvariables));
          localvariables =
            localvariables @ [(''configlibpaths'', Flags (make_configlibpaths os self config arch))];
          localvariables =
            (if is_android (target self)
             then localvariables @ [(''sysroot'', Scalar (make_sysroot_path (android self) arch))]
             else localvariables);
          archlibs = make_linkarchlibs self arch targettype;
          localvariables =
            (if archlibs \<noteq> [] then localvariables @ [(''archlibs'', Flags (make_libs self (Some archlibs)))]
             else localvariables)
      in localvariables)"

subsection \<open>Sample data\<close>

text \<open>
  Concrete values on which the results below are evaluated. \<open>posixpath_join\<close> follows
  \<open>os.path.join\<close> of a POSIX host: a component that starts with a slash replaces what
  was joined so far, any other one is appended after exactly one slash.
\<close>

definition posixpath_join :: "string list \<Rightarrow> string" where
  "posixpath_join ps =
     (case ps of
        [] \<Rightarrow> ''''
      | a # rest \<Rightarrow>
          foldl (\<lambda>path b. if take 1 b = ''/'' then b
                           else if path = '''' \<or> endswith path ''/'' then path @ b
                           else path @ ''/'' @ b) a rest)"

definition posix_os :: os_module where
  "posix_os = \<lparr> os_sep = ''/'', os_path_join = posixpath_join \<rparr>"

definition sample_android :: Android where
  "sample_android =
     \<lparr> hostarchname = ''linux-x86_64'',
       make_gcc_toolchain_path = (\<lambda>arch. ''$ndk/toolchains/'' @ arch @ ''-4.9/prebuilt/linux-x86_64''),
       make_sysroot_path = (\<lambda>arch. ''$ndk/platforms/android-21/arch-'' @ arch),
       make_gcc_bin_path = (\<lambda>arch. ''$ndk/toolchains/'' @ arch @ ''-4.9/prebuilt/linux-x86_64/bin/'') \<rparr>"

definition linux_target :: Target where
  "linux_target = \<lparr> is_windows = False, is_android = False \<rparr>"

definition windows_target :: Target where
  "windows_target = \<lparr> is_windows = True, is_android = False \<rparr>"

definition android_target :: Target where
  "android_target = \<lparr> is_windows = False, is_android = True \<rparr>"

text \<open>
  The state that \<open>initialize\<close> leaves for a project named \<open>demo\<close>, with the given
  target and the given toolchain prefix read from the preferences.
\<close>

definition sample_toolchain :: "Target \<Rightarrow> string \<Rightarrow> ClangToolchain" where
  "sample_toolchain tgt prefix =
     \<lparr> toolchain = prefix,
       includepaths = Some [''src''],
       libpaths = Some [''lib''],
       archiver = ''llvm-ar'',
       cccmd = ''$toolchain$cc -MMD -MT $out -MF $out.d -I. $includepaths $moreincludepaths $cflags $carchflags $cconfigflags -c $in -o $out'',
       linkcmd = ''$toolchain$cc $libpaths $configlibpaths $linkflags $linkarchflags $linkconfigflags -o $out $in $libs $archlibs $oslibs'',
       cflags = [''-std=c11'', ''-DDEMO_COMPILE=1'', ''-W'', ''-Werror'', ''-pedantic'', ''-Wall'',
                 ''-Weverything'', ''-Wno-padded'', ''-Wno-documentation-unknown-command'',
                 ''-funit-at-a-time'', ''-fstrict-aliasing'', ''-fno-math-errno'',
                 ''-ffinite-math-only'', ''-funsafe-math-optimizations'', ''-fno-trapping-math'',
                 ''-ffast-math''],
       linkflags = [],
       oslibs = [],
       libpath = ''lib'',
       target = tgt,
       android = sample_android,
       path_escape = (\<lambda>path. path) \<rparr>"

text \<open>
  A caller variable map with an empty list of extra include paths and one extra
  library.
\<close>

definition sample_variables :: variables where
  "sample_variables = [''includepaths'' \<mapsto> Some [], ''libs'' \<mapsto> Some [''z'']]"

subsection \<open>Vocabulary of the properties\<close>

text \<open>
  The architecture names that \<open>make_targetarchflags\<close> tests for, and the four
  configuration names that \<open>make_cconfigflags\<close> tests for.
\<close>

definition recognized_archs :: "string list" where
  "recognized_archs = [''x86'', ''x86-64'', ''arm6'', ''arm7'', ''arm64'', ''mips'', ''mips64'']"

definition recognized_configs :: "string list" where
  "recognized_configs = [''debug'', ''release'', ''profile'', ''deploy'']"

text \<open>The preprocessor defines of a flag list: its tokens that start with \<open>-D\<close>.\<close>

definition define_flags :: "string list \<Rightarrow> string list" where
  "define_flags flags = filter (\<lambda>flag. take 2 flag = ''-D'') flags"

text \<open>
  Path separators at the end of a prefix: \<open>build_toolchain\<close> tests for a slash and
  for a backslash, so both count. \<open>trailing_seps\<close> is the length of the run of
  separators that ends the string.
\<close>

definition is_sep :: "char \<Rightarrow> bool" where
  "is_sep c = (c = CHR ''/'' \<or> c = CHR 0x5C)"

definition trailing_seps :: "string \<Rightarrow> nat" where
  "trailing_seps s = length (takeWhile is_sep (rev s))"

text \<open>
  The prefix as the platform branch of \<open>build_toolchain\<close> leaves it, before the
  normalisation, for a state on which the method of the base class has run: the
  Android branch (taken when the target is not Windows) overwrites it with the NDK
  path, the other branches leave it as it is.
\<close>

definition platform_prefix :: "os_module \<Rightarrow> ClangToolchain \<Rightarrow> string" where
  "platform_prefix os self =
     (if is_windows (target self) \<or> \<not> is_android (target self) then toolchain self
      else os_path_join os
             [''$ndk'', ''toolchains'', ''llvm'', ''prebuilt'',
              hostarchname (android self), ''bin'', ''''])"

subsection \<open>Auxiliary facts\<close>

text \<open>The definitions of the sample data, for evaluation.\<close>

lemmas sample_defs =
  sample_toolchain_def sample_android_def linux_target_def windows_target_def
  android_target_def posix_os_def

text \<open>
  The tokens of \<open>make_targetarchflags\<close> other than the toolchain path are constants of
  the code; none of them is the dynamic-link define or a linker fix-up flag.
\<close>

lemma targetarchflags_tokens:
  assumes "flag \<in> set (make_targetarchflags self arch targettype)"
    and "flag \<noteq> make_gcc_toolchain_path (android self) arch"
  shows "flag \<noteq> ''-DBUILD_DYNAMIC_LINK=1'' \<and> flag \<noteq> ''-Wl,--no-warn-mismatch''
           \<and> flag \<noteq> ''-Wl,--fix-cortex-a8''"
  using assms
  by (auto simp add: make_targetarchflags_def split: if_splits)

subsection \<open>C1: architecture flags exist only on Android\<close>

text \<open>
  Claim C1 as stated says that an architecture outside the recognized set yields the
  empty list. On an Android target this is not so: the pair \<open>-gcc-toolchain\<close>, path is
  appended after the \<open>if\<close>/\<open>elif\<close> chain for every architecture name.
\<close>

theorem unrecognized_arch_android_counterexample:
  "''sparc'' \<notin> set recognized_archs \<and>
   is_android (target (sample_toolchain android_target '''')) \<and>
   make_targetarchflags (sample_toolchain android_target '''') ''sparc'' ''lib'' =
     [''-gcc-toolchain'', ''$ndk/toolchains/sparc-4.9/prebuilt/linux-x86_64''] \<and>
   make_targetarchflags (sample_toolchain android_target '''') ''sparc'' ''lib'' \<noteq> []"
  by (simp add: make_targetarchflags_def recognized_archs_def sample_defs)

text \<open>
  Claim C1, amended. \<open>make_targetarchflags\<close> returns a non-empty list only on the
  Android platform: on every other platform the result is empty for every
  architecture. For an architecture name outside the recognized set it adds no target
  triple and no tuning flag: on Android the result is exactly the pair
  \<open>-gcc-toolchain\<close> and the path the NDK helper gives for that name, elsewhere it is
  empty.
\<close>

theorem targetarchflags_android_only:
  "(make_targetarchflags self arch targettype \<noteq> [] \<longrightarrow> is_android (target self)) \<and>
   (arch \<notin> set recognized_archs \<longrightarrow>
      make_targetarchflags self arch targettype =
        (if is_android (target self)
         then [''-gcc-toolchain'', make_gcc_toolchain_path (android self) arch]
         else []))"
  by (simp add: make_targetarchflags_def recognized_archs_def)

theorem targetarchflags_android_only_witness:
  "make_targetarchflags (sample_toolchain android_target '''') ''x86'' ''lib'' \<noteq> [] \<and>
   is_android (target (sample_toolchain android_target '''')) \<and>
   ''sparc'' \<notin> set recognized_archs \<and>
   make_targetarchflags (sample_toolchain linux_target '''') ''sparc'' ''lib'' = [] \<and>
   make_targetarchflags (sample_toolchain android_target '''') ''sparc'' ''lib'' =
     [''-gcc-toolchain'', ''$ndk/toolchains/sparc-4.9/prebuilt/linux-x86_64'']"
proof -
  have n: "make_targetarchflags (sample_toolchain android_target '''') ''x86'' ''lib'' \<noteq> []"
    by (simp add: make_targetarchflags_def sample_defs)
  have s: "''sparc'' \<notin> set recognized_archs"
    by (simp add: recognized_archs_def)
  show ?thesis
    using n s
      targetarchflags_android_only [of "sample_toolchain android_target ''''" "''x86''" "''lib''"]
      targetarchflags_android_only [of "sample_toolchain linux_target ''''" "''sparc''" "''lib''"]
      targetarchflags_android_only [of "sample_toolchain android_target ''''" "''sparc''" "''lib''"]
    by (simp add: sample_defs)
qed

subsection \<open>C2: no empty override\<close>

text \<open>The composed lists that are bound without a test are never empty.\<close>

lemma make_configlibpaths_nonempty: "make_configlibpaths os self config arch \<noteq> []"
  by (simp add: make_configlibpaths_def make_libpaths_def Let_def)

lemma make_libs_Some_nonempty: "ls \<noteq> [] \<Longrightarrow> make_libs self (Some ls) \<noteq> []"
  by (simp add: make_libs_def)

lemma cc_variables_no_empty:
  "(name, Flags []) \<notin> set (cc_variables self config arch targettype variables)"
  by (auto simp add: cc_variables_def Let_def split: option.splits if_splits)

lemma ar_variables_no_empty:
  "(name, Flags []) \<notin> set (ar_variables self config arch targettype variables)"
  by (auto simp add: ar_variables_def Let_def make_ararchflags_def make_arconfigflags_def
           split: if_splits)

lemma link_variables_no_empty:
  "(name, Flags []) \<notin> set (link_variables os self config arch targettype variables)"
  using make_configlibpaths_nonempty [of os self config arch]
        make_libs_Some_nonempty [of "make_linkarchlibs self arch targettype" self]
  by (auto simp add: link_variables_def Let_def split: option.splits if_splits)

lemma cc_variables_omits:
  "(make_carchflags self arch targettype = [] \<longrightarrow>
      ''carchflags'' \<notin> fst ` set (cc_variables self config arch targettype variables)) \<and>
   (make_cconfigflags self config targettype = [] \<longrightarrow>
      ''cconfigflags'' \<notin> fst ` set (cc_variables self config arch targettype variables)) \<and>
   ((\<forall>v. variables ''includepaths'' = Some v \<longrightarrow> make_includepaths self v = []) \<longrightarrow>
      ''moreincludepaths'' \<notin> fst ` set (cc_variables self config arch targettype variables))"
  by (auto simp add: cc_variables_def Let_def split: option.splits if_splits)

lemma ar_variables_omits:
  "''ararchflags'' \<notin> fst ` set (ar_variables self config arch targettype variables) \<and>
   ''arconfigflags'' \<notin> fst ` set (ar_variables self config arch targettype variables)"
  by (auto simp add: ar_variables_def Let_def make_ararchflags_def make_arconfigflags_def
           split: if_splits)

lemma link_variables_omits:
  "(make_linkarchflags self arch targettype = [] \<longrightarrow>
      ''linkarchflags'' \<notin> fst ` set (link_variables os self config arch targettype variables)) \<and>
   (make_linkconfigflags self config targettype = [] \<longrightarrow>
      ''linkconfigflags'' \<notin> fst ` set (link_variables os self config arch targettype variables)) \<and>
   ((\<forall>v. variables ''libs'' = Some v \<longrightarrow> make_libs self v = []) \<longrightarrow>
      ''libs'' \<notin> fst ` set (link_variables os self config arch targettype variables)) \<and>
   (make_linkarchlibs self arch targettype = [] \<longrightarrow>
      ''archlibs'' \<notin> fst ` set (link_variables os self config arch targettype variables))"
  by (auto simp add: link_variables_def Let_def split: option.splits if_splits)

text \<open>
  Claim C2. For every configuration, architecture, target type and caller variable
  map, no entry of \<open>cc_variables\<close>, \<open>ar_variables\<close> or \<open>link_variables\<close> binds a name to
  the empty flag list; and a category whose composed list is empty does not occur
  among the bound names at all.
\<close>

theorem variables_never_bind_empty_list:
  "(\<forall>entry \<in> set (cc_variables self config arch targettype variables).
      snd entry \<noteq> Flags []) \<and>
   (\<forall>entry \<in> set (ar_variables self config arch targettype variables).
      snd entry \<noteq> Flags []) \<and>
   (\<forall>entry \<in> set (link_variables os self config arch targettype variables).
      snd entry \<noteq> Flags []) \<and>
   (make_carchflags self arch targettype = [] \<longrightarrow>
      ''carchflags'' \<notin> fst ` set (cc_variables self config arch targettype variables)) \<and>
   (make_cconfigflags self config targettype = [] \<longrightarrow>
      ''cconfigflags'' \<notin> fst ` set (cc_variables self config arch targettype variables)) \<and>
   ((\<forall>v. variables ''includepaths'' = Some v \<longrightarrow> make_includepaths self v = []) \<longrightarrow>
      ''moreincludepaths'' \<notin> fst ` set (cc_variables self config arch targettype variables)) \<and>
   ''ararchflags'' \<notin> fst ` set (ar_variables self config arch targettype variables) \<and>
   ''arconfigflags'' \<notin> fst ` set (ar_variables self config arch targettype variables) \<and>
   (make_linkarchflags self arch targettype = [] \<longrightarrow>
      ''linkarchflags'' \<notin> fst ` set (link_variables os self config arch targettype variables)) \<and>
   (make_linkconfigflags self config targettype = [] \<longrightarrow>
      ''linkconfigflags'' \<notin> fst ` set (link_variables os self config arch targettype variables)) \<and>
   ((\<forall>v. variables ''libs'' = Some v \<longrightarrow> make_libs self v = []) \<longrightarrow>
      ''libs'' \<notin> fst ` set (link_variables os self config arch targettype variables)) \<and>
   (make_linkarchlibs self arch targettype = [] \<longrightarrow>
      ''archlibs'' \<notin> fst ` set (link_variables os self config arch targettype variables))"
proof -
  have cc: "\<forall>entry \<in> set (cc_variables self config arch targettype variables).
              snd entry \<noteq> Flags []"
  proof
    fix entry assume "entry \<in> set (cc_variables self config arch targettype variables)"
    with cc_variables_no_empty [of "fst entry" self config arch targettype variables]
    show "snd entry \<noteq> Flags []" by (cases entry) auto
  qed
  have ar: "\<forall>entry \<in> set (ar_variables self config arch targettype variables).
              snd entry \<noteq> Flags []"
  proof
    fix entry assume "entry \<in> set (ar_variables self config arch targettype variables)"
    with ar_variables_no_empty [of "fst entry" self config arch targettype variables]
    show "snd entry \<noteq> Flags []" by (cases entry) auto
  qed
  have link: "\<forall>entry \<in> set (link_variables os self config arch targettype variables).
                snd entry \<noteq> Flags []"
  proof
    fix entry assume "entry \<in> set (link_variables os self config arch targettype variables)"
    with link_variables_no_empty [of "fst entry" os self config arch targettype variables]
    show "snd entry \<noteq> Flags []" by (cases entry) auto
  qed
  note o1 = cc_variables_omits [of self arch targettype config variables]
  note o2 = ar_variables_omits [of self config arch targettype variables]
  note o3 = link_variables_omits [of self arch targettype os config variables]
  show ?thesis
    by (intro conjI cc ar link
          o1 [THEN conjunct1] o1 [THEN conjunct2, THEN conjunct1]
          o1 [THEN conjunct2, THEN conjunct2]
          o2 [THEN conjunct1] o2 [THEN conjunct2]
          o3 [THEN conjunct1] o3 [THEN conjunct2, THEN conjunct1]
          o3 [THEN conjunct2, THEN conjunct2, THEN conjunct1]
          o3 [THEN conjunct2, THEN conjunct2, THEN conjunct2])
qed

theorem variables_never_bind_empty_list_witness:
  "(''cconfigflags'', Flags [''-DBUILD_DEBUG=1'', ''-g''])
     \<in> set (cc_variables (sample_toolchain android_target '''') ''debug'' ''arm7'' ''sharedlib''
              sample_variables) \<and>
   snd (''cconfigflags'', Flags [''-DBUILD_DEBUG=1'', ''-g'']) \<noteq> Flags [] \<and>
   (''toolchain'', Scalar ''$ndk/toolchains/arm7-4.9/prebuilt/linux-x86_64/bin/'')
     \<in> set (ar_variables (sample_toolchain android_target '''') ''debug'' ''arm7'' ''sharedlib''
              sample_variables) \<and>
   snd (''toolchain'', Scalar ''$ndk/toolchains/arm7-4.9/prebuilt/linux-x86_64/bin/'') \<noteq> Flags [] \<and>
   (''libs'', Flags [''-lz''])
     \<in> set (link_variables posix_os (sample_toolchain android_target '''') ''debug'' ''arm7''
              ''sharedlib'' sample_variables) \<and>
   snd (''libs'', Flags [''-lz'']) \<noteq> Flags [] \<and>
   make_linkconfigflags (sample_toolchain android_target '''') ''debug'' ''sharedlib'' = [] \<and>
   ''linkconfigflags''
     \<notin> fst ` set (link_variables posix_os (sample_toolchain android_target '''') ''debug'' ''arm7''
                    ''sharedlib'' sample_variables) \<and>
   sample_variables ''includepaths'' = Some (Some []) \<and>
   make_includepaths (sample_toolchain android_target '''') (Some []) = [] \<and>
   ''moreincludepaths''
     \<notin> fst ` set (cc_variables (sample_toolchain android_target '''') ''debug'' ''arm7''
                    ''sharedlib'' sample_variables)"
proof -
  let ?S = "sample_toolchain android_target ''''"
  note t = variables_never_bind_empty_list
             [of ?S "''debug''" "''arm7''" "''sharedlib''" sample_variables posix_os]
  have cc_in: "(''cconfigflags'', Flags [''-DBUILD_DEBUG=1'', ''-g''])
     \<in> set (cc_variables ?S ''debug'' ''arm7'' ''sharedlib'' sample_variables)"
    by (simp add: cc_variables_def Let_def make_carchflags_def make_targetarchflags_def
          make_cconfigflags_def make_includepaths_def sample_variables_def sample_defs)
  have ar_in: "(''toolchain'', Scalar ''$ndk/toolchains/arm7-4.9/prebuilt/linux-x86_64/bin/'')
     \<in> set (ar_variables ?S ''debug'' ''arm7'' ''sharedlib'' sample_variables)"
    by (simp add: ar_variables_def Let_def make_ararchflags_def make_arconfigflags_def
          sample_defs)
  have link_in: "(''libs'', Flags [''-lz''])
     \<in> set (link_variables posix_os ?S ''debug'' ''arm7'' ''sharedlib'' sample_variables)"
    by (simp add: link_variables_def Let_def make_linkarchflags_def make_targetarchflags_def
          make_linkconfigflags_def make_libs_def make_configlibpaths_def make_libpaths_def
          make_linkarchlibs_def sample_variables_def sample_defs)
  have lc: "make_linkconfigflags ?S ''debug'' ''sharedlib'' = []"
    by (simp add: make_linkconfigflags_def sample_defs)
  have inc: "sample_variables ''includepaths'' = Some (Some [])"
    by (simp add: sample_variables_def)
  have mi: "make_includepaths ?S (Some []) = []"
    by (simp add: make_includepaths_def)
  have all_inc: "\<forall>v. sample_variables ''includepaths'' = Some v \<longrightarrow> make_includepaths ?S v = []"
    using inc mi by simp
  from t have q_cc: "\<forall>entry \<in> set (cc_variables ?S ''debug'' ''arm7'' ''sharedlib'' sample_variables).
      snd entry \<noteq> Flags []"
    by (elim conjE)
  from t have q_ar: "\<forall>entry \<in> set (ar_variables ?S ''debug'' ''arm7'' ''sharedlib'' sample_variables).
      snd entry \<noteq> Flags []"
    by (elim conjE)
  from t have q_link:
    "\<forall>entry \<in> set (link_variables posix_os ?S ''debug'' ''arm7'' ''sharedlib'' sample_variables).
      snd entry \<noteq> Flags []"
    by (elim conjE)
  from t have o_lc: "make_linkconfigflags ?S ''debug'' ''sharedlib'' = [] \<longrightarrow>
      ''linkconfigflags''
        \<notin> fst ` set (link_variables posix_os ?S ''debug'' ''arm7'' ''sharedlib'' sample_variables)"
    by (elim conjE)
  from t have o_inc:
    "(\<forall>v. sample_variables ''includepaths'' = Some v \<longrightarrow> make_includepaths ?S v = []) \<longrightarrow>
      ''moreincludepaths''
        \<notin> fst ` set (cc_variables ?S ''debug'' ''arm7'' ''sharedlib'' sample_variables)"
    by (elim conjE)
  show ?thesis
    by (intro conjI cc_in ar_in link_in lc inc mi
          bspec [OF q_cc cc_in] bspec [OF q_ar ar_in] bspec [OF q_link link_in]
          mp [OF o_lc lc] mp [OF o_inc all_inc])
qed

subsection \<open>C3: the architecture flags of arm7 on Android\<close>

text \<open>
  Claim C3. On the Android platform with \<open>arch = "arm7"\<close>, \<open>make_targetarchflags\<close>
  returns exactly, in this order: the target-triple pair
  \<open>-target armv7-none-linux-androideabi\<close>, then \<open>-march=armv7-a\<close>, \<open>-mhard-float\<close>,
  \<open>-mfpu=vfpv3-d16\<close>, \<open>-mfpu=neon\<close>, \<open>-D_NDK_MATH_NO_SOFTFP=1\<close>, \<open>-marm\<close>, then the pair
  \<open>-gcc-toolchain\<close> and the GCC toolchain path that the NDK helper gives for arm7.
  The target type plays no part.
\<close>

theorem arm7_android_targetarchflags:
  assumes "is_android (target self)"
  shows "make_targetarchflags self ''arm7'' targettype =
           [''-target'', ''armv7-none-linux-androideabi'',
            ''-march=armv7-a'', ''-mhard-float'', ''-mfpu=vfpv3-d16'', ''-mfpu=neon'',
            ''-D_NDK_MATH_NO_SOFTFP=1'', ''-marm'',
            ''-gcc-toolchain'', make_gcc_toolchain_path (android self) ''arm7'']"
  using assms by (simp add: make_targetarchflags_def)

theorem arm7_android_targetarchflags_witness:
  "is_android (target (sample_toolchain android_target '''')) \<and>
   make_targetarchflags (sample_toolchain android_target '''') ''arm7'' ''lib'' =
     [''-target'', ''armv7-none-linux-androideabi'',
      ''-march=armv7-a'', ''-mhard-float'', ''-mfpu=vfpv3-d16'', ''-mfpu=neon'',
      ''-D_NDK_MATH_NO_SOFTFP=1'', ''-marm'',
      ''-gcc-toolchain'', ''$ndk/toolchains/arm7-4.9/prebuilt/linux-x86_64'']"
proof -
  have h: "is_android (target (sample_toolchain android_target ''''))"
    by (simp add: sample_defs)
  show ?thesis
    using h arm7_android_targetarchflags [OF h, of "''lib''"]
    by (simp add: sample_defs)
qed

subsection \<open>C4: configuration flags\<close>

lemma define_flags_cconfigflags:
  "define_flags (make_cconfigflags self ''debug'' targettype) = [''-DBUILD_DEBUG=1'']"
  "define_flags (make_cconfigflags self ''release'' targettype) = [''-DBUILD_RELEASE=1'']"
  "define_flags (make_cconfigflags self ''profile'' targettype) = [''-DBUILD_PROFILE=1'']"
  "define_flags (make_cconfigflags self ''deploy'' targettype) = [''-DBUILD_DEPLOY=1'']"
  by (simp_all add: make_cconfigflags_def define_flags_def)

text \<open>
  Claim C4 as stated says that \<open>debug\<close> yields the debug define plus a pair of
  flags, one for no optimisation and one for symbols, in parallel with the three
  tokens that follow the define of the other configurations. The code appends only
  two tokens for \<open>debug\<close>: the define and \<open>-g\<close>. There is no flag that switches
  optimisation off (no \<open>-O0\<close>, no token starting with \<open>-O\<close> at all), so what follows
  the define is a single token and not a pair.
\<close>

theorem debug_flags_not_a_pair_counterexample:
  "make_cconfigflags (sample_toolchain linux_target '''') ''debug'' ''bin'' =
     [''-DBUILD_DEBUG=1'', ''-g''] \<and>
   length (make_cconfigflags (sample_toolchain linux_target '''') ''debug'' ''bin'') = 2 \<and>
   tl (make_cconfigflags (sample_toolchain linux_target '''') ''debug'' ''bin'') = [''-g''] \<and>
   ''-O0'' \<notin> set (make_cconfigflags (sample_toolchain linux_target '''') ''debug'' ''bin'') \<and>
   length (make_cconfigflags (sample_toolchain linux_target '''') ''release'' ''bin'') = 4"
  by (simp add: make_cconfigflags_def)

text \<open>
  Claim C4, amended. \<open>make_cconfigflags\<close> maps \<open>debug\<close> to exactly the debug define
  followed by the single symbols flag \<open>-g\<close>; it emits no optimisation flag for
  \<open>debug\<close> (no token starting with \<open>-O\<close>), so optimisation is off only by the
  compiler's default. It maps each of \<open>release\<close>, \<open>profile\<close>, \<open>deploy\<close> to exactly its
  own define followed by \<open>-O3\<close>, \<open>-g\<close>, \<open>-funroll-loops\<close>. The defines of two
  different configurations among the four are disjoint, and every other
  configuration name yields the empty list.
\<close>

theorem cconfigflags_per_configuration:
  "make_cconfigflags self ''debug'' targettype = [''-DBUILD_DEBUG=1'', ''-g''] \<and>
   make_cconfigflags self ''release'' targettype =
     [''-DBUILD_RELEASE=1'', ''-O3'', ''-g'', ''-funroll-loops''] \<and>
   make_cconfigflags self ''profile'' targettype =
     [''-DBUILD_PROFILE=1'', ''-O3'', ''-g'', ''-funroll-loops''] \<and>
   make_cconfigflags self ''deploy'' targettype =
     [''-DBUILD_DEPLOY=1'', ''-O3'', ''-g'', ''-funroll-loops''] \<and>
   (\<forall>flag \<in> set (make_cconfigflags self ''debug'' targettype). take 2 flag \<noteq> ''-O'') \<and>
   (\<forall>c1 \<in> set recognized_configs. \<forall>c2 \<in> set recognized_configs. c1 \<noteq> c2 \<longrightarrow>
      set (define_flags (make_cconfigflags self c1 targettype)) \<inter>
      set (define_flags (make_cconfigflags self c2 targettype)) = {}) \<and>
   (config \<notin> set recognized_configs \<longrightarrow> make_cconfigflags self config targettype = [])"
proof -
  have lists:
    "make_cconfigflags self ''debug'' targettype = [''-DBUILD_DEBUG=1'', ''-g'']"
    "make_cconfigflags self ''release'' targettype =
       [''-DBUILD_RELEASE=1'', ''-O3'', ''-g'', ''-funroll-loops'']"
    "make_cconfigflags self ''profile'' targettype =
       [''-DBUILD_PROFILE=1'', ''-O3'', ''-g'', ''-funroll-loops'']"
    "make_cconfigflags self ''deploy'' targettype =
       [''-DBUILD_DEPLOY=1'', ''-O3'', ''-g'', ''-funroll-loops'']"
    by (simp_all add: make_cconfigflags_def)
  have noopt: "\<forall>flag \<in> set (make_cconfigflags self ''debug'' targettype). take 2 flag \<noteq> ''-O''"
    by (simp add: lists)
  have disjoint:
    "\<forall>c1 \<in> set recognized_configs. \<forall>c2 \<in> set recognized_configs. c1 \<noteq> c2 \<longrightarrow>
       set (define_flags (make_cconfigflags self c1 targettype)) \<inter>
       set (define_flags (make_cconfigflags self c2 targettype)) = {}"
    by (simp add: recognized_configs_def define_flags_cconfigflags)
  have other: "config \<notin> set recognized_configs \<longrightarrow> make_cconfigflags self config targettype = []"
    by (simp add: recognized_configs_def make_cconfigflags_def)
  show ?thesis by (intro conjI lists noopt disjoint other)
qed

theorem cconfigflags_per_configuration_witness:
  "''debug'' \<in> set recognized_configs \<and> ''release'' \<in> set recognized_configs \<and>
   ''debug'' \<noteq> ''release'' \<and>
   set (define_flags (make_cconfigflags (sample_toolchain linux_target '''') ''debug'' ''bin'')) \<inter>
   set (define_flags (make_cconfigflags (sample_toolchain linux_target '''') ''release'' ''bin'')) = {} \<and>
   ''-g'' \<in> set (make_cconfigflags (sample_toolchain linux_target '''') ''debug'' ''bin'') \<and>
   take 2 ''-g'' \<noteq> ''-O'' \<and>
   ''fast'' \<notin> set recognized_configs \<and>
   make_cconfigflags (sample_toolchain linux_target '''') ''fast'' ''bin'' = []"
proof -
  have m: "''debug'' \<in> set recognized_configs" "''release'' \<in> set recognized_configs"
    "''debug'' \<noteq> ''release''" "''fast'' \<notin> set recognized_configs"
    by (simp_all add: recognized_configs_def)
  note t = cconfigflags_per_configuration
             [of "sample_toolchain linux_target ''''" "''bin''" "''fast''"]
  from t have dis:
    "\<forall>c1 \<in> set recognized_configs. \<forall>c2 \<in> set recognized_configs. c1 \<noteq> c2 \<longrightarrow>
       set (define_flags (make_cconfigflags (sample_toolchain linux_target '''') c1 ''bin'')) \<inter>
       set (define_flags (make_cconfigflags (sample_toolchain linux_target '''') c2 ''bin'')) = {}"
    by (elim conjE)
  from t have dbg:
    "make_cconfigflags (sample_toolchain linux_target '''') ''debug'' ''bin'' = [''-DBUILD_DEBUG=1'', ''-g'']"
    by (elim conjE)
  from t have noopt:
    "\<forall>flag \<in> set (make_cconfigflags (sample_toolchain linux_target '''') ''debug'' ''bin'').
       take 2 flag \<noteq> ''-O''"
    by (elim conjE)
  from t have oth:
    "''fast'' \<notin> set recognized_configs \<longrightarrow>
       make_cconfigflags (sample_toolchain linux_target '''') ''fast'' ''bin'' = []"
    by (elim conjE)
  have d:
    "set (define_flags (make_cconfigflags (sample_toolchain linux_target '''') ''debug'' ''bin'')) \<inter>
     set (define_flags (make_cconfigflags (sample_toolchain linux_target '''') ''release'' ''bin'')) = {}"
    using bspec [OF bspec [OF dis m(1)] m(2)] m(3) by (rule mp)
  have g: "''-g'' \<in> set (make_cconfigflags (sample_toolchain linux_target '''') ''debug'' ''bin'')"
    by (simp add: dbg)
  have o: "take 2 ''-g'' \<noteq> ''-O''"
    using noopt g by (rule bspec)
  have e: "make_cconfigflags (sample_toolchain linux_target '''') ''fast'' ''bin'' = []"
    using oth m(4) by (rule mp)
  show ?thesis by (intro conjI m d g o e)
qed

subsection \<open>C5: the dynamic-link define\<close>

text \<open>
  Claim C5. For every architecture and platform, \<open>make_carchflags\<close> contains the
  define \<open>-DBUILD_DYNAMIC_LINK=1\<close> if and only if the target type is \<open>sharedlib\<close>.
  The GCC toolchain path, which on Android is a token of the list and comes from
  the NDK helper, is required not to be that define itself.
\<close>

theorem carchflags_dynamic_link_define:
  assumes "is_android (target self) \<Longrightarrow>
             make_gcc_toolchain_path (android self) arch \<noteq> ''-DBUILD_DYNAMIC_LINK=1''"
  shows "''-DBUILD_DYNAMIC_LINK=1'' \<in> set (make_carchflags self arch targettype)
           \<longleftrightarrow> targettype = ''sharedlib''"
proof (cases "targettype = ''sharedlib''")
  case True
  then show ?thesis by (simp add: make_carchflags_def Let_def)
next
  case False
  have "''-DBUILD_DYNAMIC_LINK=1'' \<notin> set (make_carchflags self arch targettype)"
  proof (cases "is_android (target self)")
    case True
    with assms targetarchflags_tokens [of "''-DBUILD_DYNAMIC_LINK=1''" self arch targettype]
    have "''-DBUILD_DYNAMIC_LINK=1'' \<notin> set (make_targetarchflags self arch targettype)"
      by metis
    with True False show ?thesis by (simp add: make_carchflags_def Let_def)
  next
    case no: False
    with False show ?thesis by (simp add: make_carchflags_def Let_def)
  qed
  with False show ?thesis by simp
qed

theorem carchflags_dynamic_link_define_witness:
  "make_gcc_toolchain_path (android (sample_toolchain android_target '''')) ''arm7''
     \<noteq> ''-DBUILD_DYNAMIC_LINK=1'' \<and>
   ''-DBUILD_DYNAMIC_LINK=1'' \<in> set (make_carchflags (sample_toolchain android_target '''') ''arm7'' ''sharedlib'') \<and>
   ''-DBUILD_DYNAMIC_LINK=1'' \<notin> set (make_carchflags (sample_toolchain android_target '''') ''arm7'' ''bin'')"
proof -
  have h: "make_gcc_toolchain_path (android (sample_toolchain android_target '''')) ''arm7''
             \<noteq> ''-DBUILD_DYNAMIC_LINK=1''"
    by (simp add: sample_defs)
  show ?thesis
    using h
      carchflags_dynamic_link_define
        [of "sample_toolchain android_target ''''" "''arm7''" "''sharedlib''", OF h]
      carchflags_dynamic_link_define
        [of "sample_toolchain android_target ''''" "''arm7''" "''bin''", OF h]
    by simp
qed

subsection \<open>C6: link-time configuration flags\<close>

text \<open>
  Claim C6. On the Windows platform \<open>make_linkconfigflags\<close> returns the DLL-emission
  flags \<open>-Xlinker /DLL\<close> for the target type \<open>sharedlib\<close> and the console-subsystem
  flags \<open>-Xlinker /SUBSYSTEM:CONSOLE\<close> for \<open>bin\<close>; on every platform that is not Windows
  it returns the empty list, whatever the configuration and the target type.
\<close>

theorem linkconfigflags_windows_only:
  "(is_windows (target self) \<longrightarrow>
      make_linkconfigflags self config ''sharedlib'' = [''-Xlinker'', ''/DLL''] \<and>
      make_linkconfigflags self config ''bin'' = [''-Xlinker'', ''/SUBSYSTEM:CONSOLE'']) \<and>
   (\<not> is_windows (target self) \<longrightarrow> make_linkconfigflags self config targettype = [])"
  by (simp add: make_linkconfigflags_def)

theorem linkconfigflags_windows_only_witness:
  "is_windows (target (sample_toolchain windows_target '''')) \<and>
   make_linkconfigflags (sample_toolchain windows_target '''') ''release'' ''sharedlib'' =
     [''-Xlinker'', ''/DLL''] \<and>
   make_linkconfigflags (sample_toolchain windows_target '''') ''release'' ''bin'' =
     [''-Xlinker'', ''/SUBSYSTEM:CONSOLE''] \<and>
   \<not> is_windows (target (sample_toolchain android_target '''')) \<and>
   make_linkconfigflags (sample_toolchain android_target '''') ''release'' ''sharedlib'' = []"
proof -
  have w: "is_windows (target (sample_toolchain windows_target ''''))"
    by (simp add: sample_defs)
  have a: "\<not> is_windows (target (sample_toolchain android_target ''''))"
    by (simp add: sample_defs)
  show ?thesis
    using w a
      linkconfigflags_windows_only
        [of "sample_toolchain windows_target ''''" "''release''" "''sharedlib''"]
      linkconfigflags_windows_only
        [of "sample_toolchain android_target ''''" "''release''" "''sharedlib''"]
    by simp
qed

subsection \<open>C7: linker fix-up flags of arm7\<close>

text \<open>
  Claim C7. On the Android platform \<open>make_linkarchflags\<close> for \<open>arm7\<close> is the list of
  \<open>make_targetarchflags\<close> followed by \<open>-Wl,--no-warn-mismatch\<close> and
  \<open>-Wl,--fix-cortex-a8\<close>. For every other architecture nothing is appended to the
  shared architecture flags, and on a platform that is not Android the list is
  empty; so the two fix-up flags are absent there. As in C5, the GCC toolchain path
  given by the NDK helper is required not to be one of the two flags itself.
\<close>

theorem linkarchflags_arm7_fixups:
  "(is_android (target self) \<longrightarrow>
      make_linkarchflags self ''arm7'' targettype =
        make_targetarchflags self ''arm7'' targettype
          @ [''-Wl,--no-warn-mismatch'', ''-Wl,--fix-cortex-a8'']) \<and>
   (\<not> is_android (target self) \<longrightarrow> make_linkarchflags self arch targettype = []) \<and>
   (arch \<noteq> ''arm7'' \<longrightarrow>
      make_linkarchflags self arch targettype = make_targetarchflags self arch targettype) \<and>
   ((arch \<noteq> ''arm7'' \<or> \<not> is_android (target self)) \<and>
    make_gcc_toolchain_path (android self) arch \<noteq> ''-Wl,--no-warn-mismatch'' \<and>
    make_gcc_toolchain_path (android self) arch \<noteq> ''-Wl,--fix-cortex-a8'' \<longrightarrow>
      ''-Wl,--no-warn-mismatch'' \<notin> set (make_linkarchflags self arch targettype) \<and>
      ''-Wl,--fix-cortex-a8'' \<notin> set (make_linkarchflags self arch targettype))"
proof -
  have arm7: "is_android (target self) \<longrightarrow>
      make_linkarchflags self ''arm7'' targettype =
        make_targetarchflags self ''arm7'' targettype
          @ [''-Wl,--no-warn-mismatch'', ''-Wl,--fix-cortex-a8'']"
    by (simp add: make_linkarchflags_def Let_def)
  have other_platform:
    "\<not> is_android (target self) \<longrightarrow> make_linkarchflags self arch targettype = []"
    by (simp add: make_linkarchflags_def Let_def)
  have other_arch: "arch \<noteq> ''arm7'' \<longrightarrow>
      make_linkarchflags self arch targettype = make_targetarchflags self arch targettype"
    by (simp add: make_linkarchflags_def make_targetarchflags_def Let_def)
  have absent:
    "(arch \<noteq> ''arm7'' \<or> \<not> is_android (target self)) \<and>
     make_gcc_toolchain_path (android self) arch \<noteq> ''-Wl,--no-warn-mismatch'' \<and>
     make_gcc_toolchain_path (android self) arch \<noteq> ''-Wl,--fix-cortex-a8'' \<longrightarrow>
       ''-Wl,--no-warn-mismatch'' \<notin> set (make_linkarchflags self arch targettype) \<and>
       ''-Wl,--fix-cortex-a8'' \<notin> set (make_linkarchflags self arch targettype)"
  proof (intro impI, elim conjE)
    assume c: "arch \<noteq> ''arm7'' \<or> \<not> is_android (target self)"
      and p1: "make_gcc_toolchain_path (android self) arch \<noteq> ''-Wl,--no-warn-mismatch''"
      and p2: "make_gcc_toolchain_path (android self) arch \<noteq> ''-Wl,--fix-cortex-a8''"
    from c other_platform other_arch
    have sub: "set (make_linkarchflags self arch targettype)
                 \<subseteq> set (make_targetarchflags self arch targettype)"
      by auto
    have "''-Wl,--no-warn-mismatch'' \<notin> set (make_targetarchflags self arch targettype)"
      using p1 targetarchflags_tokens [of "''-Wl,--no-warn-mismatch''" self arch targettype]
      by metis
    moreover
    have "''-Wl,--fix-cortex-a8'' \<notin> set (make_targetarchflags self arch targettype)"
      using p2 targetarchflags_tokens [of "''-Wl,--fix-cortex-a8''" self arch targettype]
      by metis
    ultimately
    show "''-Wl,--no-warn-mismatch'' \<notin> set (make_linkarchflags self arch targettype) \<and>
          ''-Wl,--fix-cortex-a8'' \<notin> set (make_linkarchflags self arch targettype)"
      using sub by (meson subsetD)
  qed
  show ?thesis by (intro conjI arm7 other_platform other_arch absent)
qed

theorem linkarchflags_arm7_fixups_witness:
  "is_android (target (sample_toolchain android_target '''')) \<and>
   make_linkarchflags (sample_toolchain android_target '''') ''arm7'' ''sharedlib'' =
     make_targetarchflags (sample_toolchain android_target '''') ''arm7'' ''sharedlib''
       @ [''-Wl,--no-warn-mismatch'', ''-Wl,--fix-cortex-a8''] \<and>
   \<not> is_android (target (sample_toolchain linux_target '''')) \<and>
   make_linkarchflags (sample_toolchain linux_target '''') ''arm7'' ''sharedlib'' = [] \<and>
   ''arm64'' \<noteq> ''arm7'' \<and>
   make_gcc_toolchain_path (android (sample_toolchain android_target '''')) ''arm64''
     \<noteq> ''-Wl,--no-warn-mismatch'' \<and>
   make_gcc_toolchain_path (android (sample_toolchain android_target '''')) ''arm64''
     \<noteq> ''-Wl,--fix-cortex-a8'' \<and>
   make_linkarchflags (sample_toolchain android_target '''') ''arm64'' ''sharedlib'' =
     make_targetarchflags (sample_toolchain android_target '''') ''arm64'' ''sharedlib'' \<and>
   ''-Wl,--no-warn-mismatch''
     \<notin> set (make_linkarchflags (sample_toolchain android_target '''') ''arm64'' ''sharedlib'') \<and>
   ''-Wl,--fix-cortex-a8''
     \<notin> set (make_linkarchflags (sample_toolchain android_target '''') ''arm64'' ''sharedlib'')"
proof -
  have a: "is_android (target (sample_toolchain android_target ''''))"
    and l: "\<not> is_android (target (sample_toolchain linux_target ''''))"
    and n: "''arm64'' \<noteq> ''arm7''"
    and p1: "make_gcc_toolchain_path (android (sample_toolchain android_target '''')) ''arm64''
               \<noteq> ''-Wl,--no-warn-mismatch''"
    and p2: "make_gcc_toolchain_path (android (sample_toolchain android_target '''')) ''arm64''
               \<noteq> ''-Wl,--fix-cortex-a8''"
    by (simp_all add: sample_defs)
  note android_arm64 =
    linkarchflags_arm7_fixups [of "sample_toolchain android_target ''''" "''sharedlib''" "''arm64''"]
  note linux_arm7 =
    linkarchflags_arm7_fixups [of "sample_toolchain linux_target ''''" "''sharedlib''" "''arm7''"]
  note c1 = android_arm64 [THEN conjunct1, THEN mp, OF a]
  note c2 = linux_arm7 [THEN conjunct2, THEN conjunct1, THEN mp, OF l]
  note c3 = android_arm64 [THEN conjunct2, THEN conjunct2, THEN conjunct1, THEN mp, OF n]
  note c4 = android_arm64 [THEN conjunct2, THEN conjunct2, THEN conjunct2, THEN mp,
                           OF conjI [OF disjI1 [OF n] conjI [OF p1 p2]]]
  show ?thesis
    by (intro conjI a l n p1 p2 c1 c2 c3 c4 [THEN conjunct1] c4 [THEN conjunct2])
qed

subsection \<open>C8: the toolchain prefix after \<open>build_toolchain\<close>\<close>

lemma endswith_single: "endswith s [c] \<longleftrightarrow> s \<noteq> [] \<and> last s = c"
  by (cases s rule: rev_cases) (simp_all add: endswith_def)

lemma trailing_seps_Nil: "trailing_seps [] = 0"
  by (simp add: trailing_seps_def)

lemma trailing_seps_snoc:
  "trailing_seps (s @ [c]) = (if is_sep c then Suc (trailing_seps s) else 0)"
  by (simp add: trailing_seps_def)

lemma trailing_seps_pos: "1 \<le> trailing_seps s \<longleftrightarrow> endswith s ''/'' \<or> endswith s backslash"
  by (cases s rule: rev_cases)
     (auto simp add: endswith_single trailing_seps_Nil trailing_seps_snoc is_sep_def backslash_def)

lemma build_toolchain_prefix:
  assumes "build_toolchain os super_build_toolchain self = Inr self'"
    and "super_build_toolchain self = Inr self1"
  shows "toolchain self' =
           (if platform_prefix os self1 \<noteq> [] \<and> \<not> endswith (platform_prefix os self1) ''/''
                 \<and> \<not> endswith (platform_prefix os self1) backslash
            then platform_prefix os self1 @ os_sep os
            else platform_prefix os self1)"
  using assms
  by (auto simp add: build_toolchain_def build_android_toolchain_def build_windows_toolchain_def
        platform_prefix_def Let_def split: if_splits option.splits)

text \<open>
  Claim C8 as stated says that a non-empty prefix ends with exactly one path
  separator. The normalisation only appends a separator when there is none: a prefix
  read from the preferences that already ends with two slashes is kept as it is.
\<close>

theorem prefix_with_two_separators_counterexample:
  "build_toolchain posix_os Inr (sample_toolchain linux_target ''/opt/llvm//'') =
     Inr (sample_toolchain linux_target ''/opt/llvm//'') \<and>
   toolchain (sample_toolchain linux_target ''/opt/llvm//'') = ''/opt/llvm//'' \<and>
   trailing_seps ''/opt/llvm//'' = 2"
  by (simp add: build_toolchain_def endswith_def backslash_def trailing_seps_def is_sep_def
        sample_defs)

text \<open>
  Claim C8, amended. After \<open>build_toolchain\<close> completes, a non-empty toolchain prefix
  ends with at least one path separator (a slash or a backslash). Measured on the
  prefix that the platform branch leaves: an empty prefix is left empty; a prefix that
  already ends with a separator is left unchanged, so a longer run of separators is
  kept; any other prefix gets \<open>os.sep\<close> appended once and then ends with exactly one
  separator. Here \<open>os.sep\<close> is a slash or a backslash, and \<open>self1\<close> is the state that the
  method of the base class returns.
\<close>

theorem build_toolchain_prefix_ends_with_separator:
  assumes "build_toolchain os super_build_toolchain self = Inr self'"
    and "super_build_toolchain self = Inr self1"
    and "os_sep os = ''/'' \<or> os_sep os = backslash"
  shows "(toolchain self' \<noteq> '''' \<longrightarrow> 1 \<le> trailing_seps (toolchain self')) \<and>
         (platform_prefix os self1 = '''' \<longrightarrow> toolchain self' = '''') \<and>
         (1 \<le> trailing_seps (platform_prefix os self1) \<longrightarrow>
            toolchain self' = platform_prefix os self1) \<and>
         (platform_prefix os self1 \<noteq> '''' \<and> trailing_seps (platform_prefix os self1) = 0 \<longrightarrow>
            toolchain self' = platform_prefix os self1 @ os_sep os \<and>
            trailing_seps (toolchain self') = 1)"
proof -
  let ?pre = "platform_prefix os self1"
  note eq = build_toolchain_prefix [OF assms(1) assms(2)]
  from assms(3) have sep: "trailing_seps (?pre @ os_sep os) = Suc (trailing_seps ?pre)"
    by (auto simp add: trailing_seps_snoc is_sep_def backslash_def)
  have pos: "1 \<le> trailing_seps ?pre \<longleftrightarrow> endswith ?pre ''/'' \<or> endswith ?pre backslash"
    by (rule trailing_seps_pos)
  have a: "toolchain self' \<noteq> '''' \<longrightarrow> 1 \<le> trailing_seps (toolchain self')"
    using eq sep pos by (auto split: if_splits)
  have b: "?pre = '''' \<longrightarrow> toolchain self' = ''''"
    using eq by simp
  have c: "1 \<le> trailing_seps ?pre \<longrightarrow> toolchain self' = ?pre"
    using eq pos by (auto split: if_splits)
  have d: "?pre \<noteq> '''' \<and> trailing_seps ?pre = 0 \<longrightarrow>
             toolchain self' = ?pre @ os_sep os \<and> trailing_seps (toolchain self') = 1"
    using eq sep pos by (auto split: if_splits)
  show ?thesis by (intro conjI a b c d)
qed

theorem build_toolchain_prefix_ends_with_separator_witness:
  "build_toolchain posix_os Inr (sample_toolchain linux_target ''/opt/llvm'') =
     Inr (sample_toolchain linux_target ''/opt/llvm/'') \<and>
   os_sep posix_os = ''/'' \<and>
   platform_prefix posix_os (sample_toolchain linux_target ''/opt/llvm'') = ''/opt/llvm'' \<and>
   trailing_seps ''/opt/llvm'' = 0 \<and>
   toolchain (sample_toolchain linux_target ''/opt/llvm/'') = ''/opt/llvm/'' \<and>
   trailing_seps (toolchain (sample_toolchain linux_target ''/opt/llvm/'')) = 1 \<and>
   build_toolchain posix_os Inr (sample_toolchain linux_target '''') =
     Inr (sample_toolchain linux_target '''') \<and>
   platform_prefix posix_os (sample_toolchain linux_target '''') = '''' \<and>
   toolchain (sample_toolchain linux_target '''') = ''''"
proof -
  let ?A = "sample_toolchain linux_target ''/opt/llvm''"
  let ?A' = "sample_toolchain linux_target ''/opt/llvm/''"
  let ?E = "sample_toolchain linux_target ''''"
  have runA: "build_toolchain posix_os Inr ?A = Inr ?A'"
    by (simp add: build_toolchain_def endswith_def backslash_def sample_defs)
  have runE: "build_toolchain posix_os Inr ?E = Inr ?E"
    by (simp add: build_toolchain_def sample_defs)
  have sep: "os_sep posix_os = ''/'' \<or> os_sep posix_os = backslash"
    and sep': "os_sep posix_os = ''/''"
    by (simp_all add: sample_defs)
  have preA: "platform_prefix posix_os ?A = ''/opt/llvm''"
    and preE: "platform_prefix posix_os ?E = ''''"
    by (simp_all add: platform_prefix_def sample_defs)
  have tsA: "trailing_seps ''/opt/llvm'' = 0"
    by (simp add: trailing_seps_def is_sep_def)
  have tcA: "toolchain ?A' = ''/opt/llvm/''"
    by (simp add: sample_defs)
  note tA = build_toolchain_prefix_ends_with_separator [OF runA refl sep]
  note tE = build_toolchain_prefix_ends_with_separator [OF runE refl sep]
  from tA have stepA:
    "platform_prefix posix_os ?A \<noteq> '''' \<and> trailing_seps (platform_prefix posix_os ?A) = 0 \<longrightarrow>
       toolchain ?A' = platform_prefix posix_os ?A @ os_sep posix_os \<and>
       trailing_seps (toolchain ?A') = 1"
    by (elim conjE)
  have premA: "platform_prefix posix_os ?A \<noteq> '''' \<and> trailing_seps (platform_prefix posix_os ?A) = 0"
    by (simp add: preA tsA)
  note oneA = mp [OF stepA premA, THEN conjunct2]
  from tE have stepE: "platform_prefix posix_os ?E = '''' \<longrightarrow> toolchain ?E = ''''"
    by (elim conjE)
  have emptyE: "toolchain ?E = ''''"
    using stepE preE by (rule mp)
  show ?thesis
    by (intro conjI runA sep' preA tsA tcA oneA runE preE emptyE)
qed

subsection \<open>C9: architecture-specific runtime libraries\<close>

text \<open>
  Claim C9. On the Android platform \<open>make_linkarchlibs\<close> always returns a non-empty
  list: a math library followed by \<open>gcc\<close> and the platform runtime library \<open>android\<close>,
  where \<open>arm7\<close> gets the hardware-float variant \<open>m_hard\<close> and every other architecture
  gets \<open>m\<close>. On a platform that is not Android the list is empty.
\<close>

theorem linkarchlibs_android:
  "(is_android (target self) \<longrightarrow>
      make_linkarchlibs self arch targettype =
        (if arch = ''arm7'' then ''m_hard'' else ''m'') # [''gcc'', ''android''] \<and>
      make_linkarchlibs self arch targettype \<noteq> [] \<and>
      ''android'' \<in> set (make_linkarchlibs self arch targettype) \<and>
      (''m_hard'' \<in> set (make_linkarchlibs self arch targettype) \<longleftrightarrow> arch = ''arm7'') \<and>
      (''m'' \<in> set (make_linkarchlibs self arch targettype) \<longleftrightarrow> arch \<noteq> ''arm7'')) \<and>
   (\<not> is_android (target self) \<longrightarrow> make_linkarchlibs self arch targettype = [])"
  by (simp add: make_linkarchlibs_def)

theorem linkarchlibs_android_witness:
  "is_android (target (sample_toolchain android_target '''')) \<and>
   make_linkarchlibs (sample_toolchain android_target '''') ''arm7'' ''bin'' =
     [''m_hard'', ''gcc'', ''android''] \<and>
   make_linkarchlibs (sample_toolchain android_target '''') ''x86'' ''bin'' =
     [''m'', ''gcc'', ''android''] \<and>
   \<not> is_android (target (sample_toolchain linux_target '''')) \<and>
   make_linkarchlibs (sample_toolchain linux_target '''') ''arm7'' ''bin'' = []"
proof -
  have a: "is_android (target (sample_toolchain android_target ''''))"
    by (simp add: sample_defs)
  have l: "\<not> is_android (target (sample_toolchain linux_target ''''))"
    by (simp add: sample_defs)
  show ?thesis
    using a l
      linkarchlibs_android [of "sample_toolchain android_target ''''" "''arm7''" "''bin''"]
      linkarchlibs_android [of "sample_toolchain android_target ''''" "''x86''" "''bin''"]
      linkarchlibs_android [of "sample_toolchain linux_target ''''" "''arm7''" "''bin''"]
    by simp
qed

subsection \<open>C10: the path and library helpers\<close>

text \<open>
  Claim C10. \<open>make_includepaths\<close>, \<open>make_libpaths\<close> and \<open>make_libs\<close> return the empty
  list for the argument \<open>None\<close>. For a list they return one token per element, in the
  order of the input: the element at position \<open>i\<close> of the result is the prefix
  (\<open>-I\<close>; \<open>-Xlinker /LIBPATH:\<close> on Windows and \<open>-L\<close> elsewhere; \<open>-l\<close>) followed by
  the escaped path, or the library name, at position \<open>i\<close> of the input.
\<close>

theorem path_helpers_total_and_ordered:
  "make_includepaths self None = [] \<and>
   make_libpaths self None = [] \<and>
   make_libs self None = [] \<and>
   length (make_includepaths self (Some xs)) = length xs \<and>
   length (make_libpaths self (Some xs)) = length xs \<and>
   length (make_libs self (Some xs)) = length xs \<and>
   (\<forall>i < length xs.
      make_includepaths self (Some xs) ! i = ''-I'' @ path_escape self (xs ! i) \<and>
      make_libpaths self (Some xs) ! i =
        (if is_windows (target self) then ''-Xlinker /LIBPATH:'' else ''-L'')
          @ path_escape self (xs ! i) \<and>
      make_libs self (Some xs) ! i = ''-l'' @ xs ! i)"
proof -
  have none: "make_includepaths self None = []" "make_libpaths self None = []"
    "make_libs self None = []"
    by (simp_all add: make_includepaths_def make_libpaths_def make_libs_def)
  have len: "length (make_includepaths self (Some xs)) = length xs"
    "length (make_libpaths self (Some xs)) = length xs"
    "length (make_libs self (Some xs)) = length xs"
    by (simp_all add: make_includepaths_def make_libpaths_def make_libs_def)
  have nth: "\<forall>i < length xs.
      make_includepaths self (Some xs) ! i = ''-I'' @ path_escape self (xs ! i) \<and>
      make_libpaths self (Some xs) ! i =
        (if is_windows (target self) then ''-Xlinker /LIBPATH:'' else ''-L'')
          @ path_escape self (xs ! i) \<and>
      make_libs self (Some xs) ! i = ''-l'' @ xs ! i"
    by (simp add: make_includepaths_def make_libpaths_def make_libs_def)
  show ?thesis by (intro conjI none len nth)
qed

theorem path_helpers_total_and_ordered_witness:
  "(1::nat) < length [''inc'', ''ext/inc''] \<and>
   make_includepaths (sample_toolchain windows_target '''') (Some [''inc'', ''ext/inc'']) ! 1
     = ''-Iext/inc'' \<and>
   make_libpaths (sample_toolchain windows_target '''') (Some [''inc'', ''ext/inc'']) ! 1
     = ''-Xlinker /LIBPATH:ext/inc'' \<and>
   make_libs (sample_toolchain windows_target '''') (Some [''inc'', ''ext/inc'']) ! 1
     = ''-lext/inc''"
proof -
  have h: "(1::nat) < length [''inc'', ''ext/inc'']" by simp
  note t = path_helpers_total_and_ordered
             [of "sample_toolchain windows_target ''''" "[''inc'', ''ext/inc'']"]
  from t have nth: "\<forall>i < length [''inc'', ''ext/inc''].
      make_includepaths (sample_toolchain windows_target '''') (Some [''inc'', ''ext/inc'']) ! i
        = ''-I'' @ path_escape (sample_toolchain windows_target '''') ([''inc'', ''ext/inc''] ! i) \<and>
      make_libpaths (sample_toolchain windows_target '''') (Some [''inc'', ''ext/inc'']) ! i =
        (if is_windows (target (sample_toolchain windows_target ''''))
         then ''-Xlinker /LIBPATH:'' else ''-L'')
          @ path_escape (sample_toolchain windows_target '''') ([''inc'', ''ext/inc''] ! i) \<and>
      make_libs (sample_toolchain windows_target '''') (Some [''inc'', ''ext/inc'']) ! i
        = ''-l'' @ [''inc'', ''ext/inc''] ! i"
    by (elim conjE)
  from nth [rule_format, OF h] show ?thesis
    using h by (simp add: sample_defs)
qed

end
